theory Spec2Isabelle
  imports Complex_Main
begin

section \<open>The per-pixel expression language\<close>

text \<open>
  \<^verbatim>\<open>blur.py\<close> hands its pixel arithmetic to the expression engine as a program in
  reverse Polish notation (\<^verbatim>\<open>norm_expr\<close>). The engine belongs to the host, not to this
  module, so its instruction set is modelled here from the host's documentation, for the
  instructions the module emits:
  \<^item> \<^verbatim>\<open>x y z a ...\<close> load the sample of the first, second, ... input clip (\<open>Var 0\<close>,
    \<open>Var 1\<close>, ...), \<^verbatim>\<open>x[dx,dy]\<close> loads a neighbouring sample (\<open>Rel\<close>), \<^verbatim>\<open>neutral\<close> is
    replaced by the format's neutral value;
  \<^item> a value counts as true when it is greater than zero; \<^verbatim>\<open><\<close> and \<^verbatim>\<open>xor\<close> leave 1 or 0;
  \<^item> \<^verbatim>\<open>c t e ?\<close> is \<open>t\<close> when \<open>c\<close> is true and \<open>e\<close> otherwise;
  \<^item> \<^verbatim>\<open>N!\<close> pops the top into the register \<open>N\<close>, \<^verbatim>\<open>N@\<close> pushes the register;
  \<^item> \<^verbatim>\<open>sortN\<close> sorts the top N values so that the smallest is on top, \<^verbatim>\<open>swapN\<close> swaps
    the top with the value N places below it, \<^verbatim>\<open>dropN\<close> drops N values;
  \<^item> \<^verbatim>\<open>v lo hi clip\<close> clamps \<open>v\<close> to the interval from \<open>lo\<close> to \<open>hi\<close>.

  Samples are values of an ordered ring (\<open>int\<close> for the integer formats, \<open>real\<close> for the
  float ones). The value computed is the one on the stack when the program ends; the
  engine's conversion of that value to the output format is not part of the model.
\<close>

datatype tok =
    Var nat
  | Rel nat int int
  | Neutral
  | Sub
  | Add
  | Abs
  | Lt
  | Xor
  | Ternary
  | Store string
  | Load string
  | SortN int
  | SwapN int
  | DropN int
  | Clip








text \<open>
  \<^verbatim>\<open>min_blur\<close>, lines 206 to 210:
  \<^verbatim>\<open>'x y - D1! x z - D2! D1@ D2@ xor x D1@ abs D2@ abs < y z ? ?'\<close>
  over the clips \<^verbatim>\<open>[clip, blurred, median]\<close>.
\<close>

definition min_blur_expr :: "tok list" where
  "min_blur_expr =
     [Var 0, Var 1, Sub, Store ''D1'', Var 0, Var 2, Sub, Store ''D2'',
      Load ''D1'', Load ''D2'', Xor, Var 0,
      Load ''D1'', Abs, Load ''D2'', Abs, Lt, Var 1, Var 2, Ternary, Ternary]"

text \<open>
  \<^verbatim>\<open>sbr\<close>, lines 228 to 232:
  \<^verbatim>\<open>'x y - D1! x neutral - D2! D1@ D2@ xor neutral D1@ abs D2@ abs < D1@ neutral + x ? ?'\<close>
  over the clips \<^verbatim>\<open>[diff, blurred_diff]\<close>.
\<close>

definition sbr_expr :: "tok list" where
  "sbr_expr =
     [Var 0, Var 1, Sub, Store ''D1'', Var 0, Neutral, Sub, Store ''D2'',
      Load ''D1'', Load ''D2'', Xor, Neutral,
      Load ''D1'', Abs, Load ''D2'', Abs, Lt, Load ''D1'', Neutral, Add, Var 0,
      Ternary, Ternary]"

section \<open>Clips, formats and what the module takes from outside\<close>

datatype SampleType = INTEGER | FLOAT

record VideoFormat =
  sample_type :: SampleType
  bits_per_sample :: nat
  num_planes :: nat

datatype ConvMode = SQUARE | VERTICAL | HORIZONTAL | HV | TEMPORAL

datatype LimitFilterMode = SIMPLE2_MIN | DIFF_MIN

text \<open>A radius (or sigma) argument: one number, or a list with one number per plane.\<close>

datatype 'r radius_t = RInt 'r | RList "'r list"

text \<open>\<^verbatim>\<open>to_arr\<close>: a list stays, a single value becomes the list holding it.\<close>

fun to_arr :: "'r radius_t \<Rightarrow> 'r list" where
  "to_arr (RInt r) = [r]"
| "to_arr (RList rs) = rs"

text \<open>The object \<^verbatim>\<open>BlurMatrix.GAUSS(taps, sigma=.., mode=.., scale_value=..)\<close> returns.\<close>

record gauss_kernel =
  k_taps :: int
  k_sigma :: real
  k_mode :: ConvMode
  k_scale_value :: real

text \<open>
  The module builds a filter graph: every call of a plugin function, and of a function of
  \<^verbatim>\<open>vsexprtools\<close>, \<^verbatim>\<open>vskernels\<close>, \<^verbatim>\<open>vstools\<close> or of the sibling modules \<^verbatim>\<open>enum\<close> and
  \<^verbatim>\<open>limit\<close> that returns a clip, is a node holding the arguments of the call. The pixels
  those functions compute are theirs; the graph records which one is called, on what, and
  with which arguments.
\<close>

datatype graph =
    Input nat
  | VszipBoxBlur graph "nat list" int int int int
  | StdBoxBlur graph "nat list" int int int int
  | BlurMatrixMEAN int ConvMode graph "nat list" int
  | BlurMatrixBINOMIAL "int radius_t" ConvMode graph "nat list"
  | BlurMatrixGAUSS gauss_kernel graph "nat list"
  | ExprOpConvolution gauss_kernel ConvMode graph
  | GaussianScale real int bool bool graph
  | StdConvolution graph "int list" "nat list" ConvMode
  | StdMedian graph "nat list option"
  | StdMakeDiff graph graph "nat list option"
  | StdMergeDiff graph graph
  | NormExpr "graph list" "tok list list" "nat list option" "string option"
  | LimitFilter graph graph graph LimitFilterMode "nat list"
  | Plane nat graph
  | Join "graph list"
  | Depth graph nat
  | BilateralGpuRtc graph "real list" "real list" "int radius_t option" int
      "int option" bool "int option" "int option" "graph option"
  | BilateralGpu graph "real list" "real list" "int radius_t option" int
      "int option" bool "graph option"
  | VszipBilateral graph "graph option" "real list" "real list"
  | TemporalMedian graph int "nat list"
  | TemporalSoften2 graph int int int int

text \<open>
  A clip is a constant-format node: \<^verbatim>\<open>check_variable\<close>, asserted on entry by the
  operators, is the guard that narrows a node to one, so the clip of the model always has a
  format and its assertion always passes.
\<close>

record VideoNode =
  format :: VideoFormat
  width :: nat
  height :: nat
  graph :: graph

text \<open>
  What the module reads from outside: the plugins the host core has
  (\<^verbatim>\<open>hasattr(core, ..)\<close>, \<^verbatim>\<open>complexpr_available\<close>), and the answers of the imported functions
  whose result decides a branch or an argument here:
  \<^verbatim>\<open>normalize_planes(clip, planes)\<close>, \<^verbatim>\<open>ExprOp.matrix('x', radius, mode, [(0, 0)])\<close> as the
  list of offsets it loads, \<^verbatim>\<open>BlurMatrix.GAUSS.get_taps(sigma, taps)\<close>, \<^verbatim>\<open>len(kernel)\<close> and
  \<^verbatim>\<open>FunctionUtil(clip, bilateral, planes).norm_seq\<close>.
\<close>

record env =
  has_vszip :: bool
  has_resize2 :: bool
  has_bilateralgpu_rtc :: bool
  complexpr_available :: bool
  normalize_planes :: "VideoFormat \<Rightarrow> nat list option \<Rightarrow> nat list"
  matrix :: "int \<Rightarrow> ConvMode \<Rightarrow> (int \<times> int) list"
  get_taps :: "real \<Rightarrow> int option \<Rightarrow> int"
  kernel_len :: "gauss_kernel \<Rightarrow> nat"
  norm_seq :: "VideoFormat \<Rightarrow> nat list option \<Rightarrow> real list \<Rightarrow> real list"

text \<open>
  The exceptions of the module. A \<^verbatim>\<open>raise Name(..)\<close> first looks \<open>Name\<close> up among the names
  bound in the module (its imports and its own functions); an unbound name is a
  \<^verbatim>\<open>NameError\<close>. A call with a keyword the callee does not take is a \<^verbatim>\<open>TypeError\<close>.
\<close>

datatype error =
    NameError string
  | TypeError string string
  | ValueError string
  | IndexError string
  | CustomRuntimeError string
  | CustomIndexError string string int

text \<open>Lines 3 to 16 and the functions the module defines.\<close>

definition module_names :: "string list" where
  "module_names =
     [''annotations'', ''partial'', ''count'', ''Any'', ''Literal'',
      ''ExprList'', ''ExprOp'', ''ExprVars'', ''complexpr_available'', ''norm_expr'',
      ''Gaussian'',
      ''ConvMode'', ''CustomIndexError'', ''FunctionUtil'', ''PlanesT'', ''StrList'',
      ''check_variable'', ''core'', ''depth'', ''get_depth'', ''join'', ''normalize_planes'',
      ''split'', ''to_arr'', ''vs'',
      ''BlurMatrix'', ''BlurMatrixBase'', ''LimitFilterMode'',
      ''limit_filter'',
      ''normalize_radius'',
      ''box_blur'', ''side_box_blur'', ''gauss_blur'', ''min_blur'', ''sbr'',
      ''median_blur'', ''bilateral'', ''flux_smooth'']"

definition raise_named :: "string \<Rightarrow> error \<Rightarrow> error + 'a" where
  "raise_named name exc =
     (if name \<in> set module_names then Inl exc else Inl (NameError name))"

text \<open>The first keyword of a call that is not a parameter of the callee, if any.\<close>

definition unexpected_keyword :: "string list \<Rightarrow> string list \<Rightarrow> string option" where
  "unexpected_keyword params keywords = find (\<lambda>k. k \<notin> set params) keywords"

text \<open>Calling a filter on a clip: the format and the size stay, the graph grows.\<close>

definition filtered :: "VideoNode \<Rightarrow> graph \<Rightarrow> VideoNode" where
  "filtered clip g = clip\<lparr>graph := g\<rparr>"

text \<open>\<^verbatim>\<open>split\<close> and \<^verbatim>\<open>join\<close> of \<^verbatim>\<open>vstools\<close>: the planes of a clip as clips, and back.\<close>

definition split :: "VideoNode \<Rightarrow> VideoNode list" where
  "split clip =
     map (\<lambda>i. clip\<lparr>format := (format clip)\<lparr>num_planes := 1\<rparr>, graph := Plane i (graph clip)\<rparr>)
       [0..<num_planes (format clip)]"

definition join :: "VideoNode \<Rightarrow> VideoNode list \<Rightarrow> VideoNode" where
  "join clip planes =
     clip\<lparr>format := (format clip)\<lparr>num_planes := length planes\<rparr>,
          graph := Join (map graph planes)\<rparr>"

text \<open>The first error of a sequence of calls, as the exception would propagate.\<close>

fun collect :: "(error + 'a) list \<Rightarrow> error + 'a list" where
  "collect [] = Inr []"
| "collect (Inl e # xs) = Inl e"
| "collect (Inr x # xs) = (case collect xs of Inl e \<Rightarrow> Inl e | Inr ys \<Rightarrow> Inr (x # ys))"

section \<open>The radius normalizer\<close>

text \<open>
  Modelled from the spec: \<^verbatim>\<open>normalize_radius\<close> of the sibling module \<^verbatim>\<open>util\<close>, which is
  not among the sources. The spec (4.5): it "invokes the scalar-radius operator once per
  distinct plane-radius group and recombines plane outputs; it must preserve plane order and
  must not blur planes outside the group's selection", for a list with one radius per plane
  (3, RadiusSpec). A group is a radius together with the selected planes that have it, in
  plane order; groups are taken in the order their radius first occurs among the selected
  planes. An exception of an invocation propagates.
\<close>

definition radius_groups :: "'r list \<Rightarrow> nat list \<Rightarrow> ('r \<times> nat list) list" where
  "radius_groups radius planes =
     map (\<lambda>r. (r, filter (\<lambda>p. radius ! p = r) planes))
       (remdups (map (\<lambda>p. radius ! p) planes))"

definition recombine :: "VideoNode \<Rightarrow> 'r list \<Rightarrow> nat list \<Rightarrow> ('r \<times> VideoNode) list
    \<Rightarrow> VideoNode" where
  "recombine clip radius planes outs =
     filtered clip (Join (map (\<lambda>i.
        if i \<in> set planes
        then (case map_of outs (radius ! i) of
                Some out \<Rightarrow> Plane i (graph out)
              | None \<Rightarrow> Plane i (graph clip))
        else Plane i (graph clip)) [0..<num_planes (format clip)]))"

definition normalize_radius :: "VideoNode \<Rightarrow> (VideoNode \<Rightarrow> 'r \<Rightarrow> nat list \<Rightarrow> error + VideoNode)
    \<Rightarrow> 'r list \<Rightarrow> nat list \<Rightarrow> error + VideoNode" where
  "normalize_radius clip func radius planes =
     (let groups = radius_groups radius planes in
      case collect (map (\<lambda>(r, ps). func clip r ps) groups) of
        Inl e \<Rightarrow> Inl e
      | Inr outs \<Rightarrow> Inr (recombine clip radius planes (zip (map fst groups) outs)))"

section \<open>The operators of \<^verbatim>\<open>blur.py\<close>\<close>

subsection \<open>\<^verbatim>\<open>box_blur\<close>, lines 26 to 55\<close>

text \<open>Lines 38 to 55: the call with a scalar radius, after the planes are normalized.\<close>

definition box_blur_scalar :: "env \<Rightarrow> VideoNode \<Rightarrow> int \<Rightarrow> int \<Rightarrow> ConvMode \<Rightarrow> nat list
    \<Rightarrow> error + VideoNode" where
  "box_blur_scalar e clip radius passes mode planes =
     (if radius = 0 then Inr clip
      else
        let hpasses = (if mode = VERTICAL then 0 else passes);
            vpasses = (if mode = HORIZONTAL then 0 else passes)
        in if has_vszip e
           then Inr (filtered clip (VszipBoxBlur (graph clip) planes radius hpasses radius vpasses))
           else if 12 < radius \<and>
                   \<not> (sample_type (format clip) = FLOAT \<and> bits_per_sample (format clip) = 16)
           then Inr (filtered clip (StdBoxBlur (graph clip) planes radius hpasses radius vpasses))
           else Inr (filtered clip (BlurMatrixMEAN radius mode (graph clip) planes passes)))"

text \<open>
  Lines 31 to 36. With a list the normalizer calls \<^verbatim>\<open>box_blur\<close> again with one radius, the
  planes it chose and \<^verbatim>\<open>passes\<close>; \<^verbatim>\<open>mode\<close> is not handed over, so that call runs with the
  default \<^verbatim>\<open>ConvMode.HV\<close>.
\<close>

definition box_blur :: "env \<Rightarrow> VideoNode \<Rightarrow> int radius_t \<Rightarrow> int \<Rightarrow> ConvMode
    \<Rightarrow> nat list option \<Rightarrow> error + VideoNode" where
  "box_blur e clip radius passes mode planes =
     (let planes = normalize_planes e (format clip) planes in
      case radius of
        RList rs \<Rightarrow>
          normalize_radius clip
            (\<lambda>c r ps. box_blur_scalar e c r passes HV (normalize_planes e (format c) (Some ps)))
            rs planes
      | RInt r \<Rightarrow> box_blur_scalar e clip r passes mode planes)"

subsection \<open>\<^verbatim>\<open>median_blur\<close>, lines 237 to 255\<close>

text \<open>
  Lines 243 to 253, for the offsets \<open>m\<close> that \<^verbatim>\<open>ExprOp.matrix\<close> loads:
  \<^verbatim>\<open>f"{matrix} sort{st} swap{sp} min! swap{sp} max! drop{dp} x min@ max@ clip"\<close>.
\<close>

definition median_expr :: "(int \<times> int) list \<Rightarrow> tok list" where
  "median_expr m =
     (let rb = int (length m) + 1;
          st = rb - 1;
          sp = rb div 2 - 1;
          dp = st - 2
      in map (\<lambda>(dx, dy). Rel 0 dx dy) m @
         [SortN st, SwapN sp, Store ''min'', SwapN sp, Store ''max'', DropN dp,
          Var 0, Load ''min'', Load ''max'', Clip])"

definition median_blur :: "env \<Rightarrow> VideoNode \<Rightarrow> int radius_t \<Rightarrow> ConvMode \<Rightarrow> nat list option
    \<Rightarrow> VideoNode" where
  "median_blur e clip radius mode planes =
     (if radius = RInt 1 \<and> (mode = HV \<or> mode = SQUARE)
      then filtered clip (StdMedian (graph clip) planes)
      else filtered clip
             (NormExpr [graph clip]
                (map (\<lambda>r. median_expr (matrix e r mode)) (to_arr radius))
                planes (Some ''median_blur'')))"

subsection \<open>\<^verbatim>\<open>min_blur\<close>, lines 187 to 210\<close>

definition min_blur_scalar :: "env \<Rightarrow> VideoNode \<Rightarrow> int \<Rightarrow> ConvMode \<Rightarrow> nat list
    \<Rightarrow> error + VideoNode" where
  "min_blur_scalar e clip radius mode planes =
     (let blurred = filtered clip (BlurMatrixBINOMIAL (RInt radius) mode (graph clip) planes);
          median = median_blur e clip (RInt radius) mode (Some planes)
      in Inr (filtered clip
               (NormExpr [graph clip, graph blurred, graph median] [min_blur_expr]
                  (Some planes) None)))"

definition min_blur :: "env \<Rightarrow> VideoNode \<Rightarrow> int radius_t \<Rightarrow> ConvMode \<Rightarrow> nat list option
    \<Rightarrow> error + VideoNode" where
  "min_blur e clip radius mode planes =
     (let planes = normalize_planes e (format clip) planes in
      case radius of
        RList rs \<Rightarrow>
          normalize_radius clip
            (\<lambda>c r ps. min_blur_scalar e c r HV (normalize_planes e (format c) (Some ps)))
            rs planes
      | RInt r \<Rightarrow> min_blur_scalar e clip r mode planes)"

subsection \<open>\<^verbatim>\<open>sbr\<close>, lines 213 to 234\<close>

text \<open>The radius goes to \<^verbatim>\<open>BlurMatrix.BINOMIAL\<close> as it came, a list included.\<close>

definition sbr :: "env \<Rightarrow> VideoNode \<Rightarrow> int radius_t \<Rightarrow> ConvMode \<Rightarrow> nat list option
    \<Rightarrow> error + VideoNode" where
  "sbr e clip radius mode planes =
     (let planes = normalize_planes e (format clip) planes;
          blurred = filtered clip (BlurMatrixBINOMIAL radius mode (graph clip) planes);
          diff = filtered clip (StdMakeDiff (graph clip) (graph blurred) (Some planes));
          blurred_diff = filtered diff (BlurMatrixBINOMIAL radius mode (graph diff) planes);
          limited_diff = filtered diff
            (NormExpr [graph diff, graph blurred_diff] [sbr_expr] (Some planes) None)
      in Inr (filtered clip (StdMakeDiff (graph clip) (graph limited_diff) (Some planes))))"

subsection \<open>\<^verbatim>\<open>side_box_blur\<close>, lines 58 to 126\<close>

text \<open>The parameters of \<^verbatim>\<open>box_blur\<close>, lines 26 to 30.\<close>

definition box_blur_params :: "string list" where
  "box_blur_params = [''clip'', ''radius'', ''passes'', ''mode'', ''planes'']"

text \<open>
  Lines 71 and 76: \<^verbatim>\<open>partial(partial(box_blur, planes=planes), hradius=hr, vradius=vr,
  hpasses=h, vpasses=v)\<close>, called on a clip. The keywords are checked against the
  parameters of \<^verbatim>\<open>box_blur\<close> as the call would; were they all taken, the radius, passes and
  mode of the call would be the defaults.
\<close>

definition blur_pt :: "env \<Rightarrow> nat list \<Rightarrow> VideoNode \<Rightarrow> error + VideoNode" where
  "blur_pt e planes c =
     (case unexpected_keyword box_blur_params
             [''planes'', ''hradius'', ''vradius'', ''hpasses'', ''vpasses''] of
        Some k \<Rightarrow> Inl (TypeError ''box_blur'' k)
      | None \<Rightarrow> box_blur e c (RInt 1) 1 HV (Some planes))"

text \<open>Line 67.\<close>

definition half_kernel :: "int \<Rightarrow> int list" where
  "half_kernel radius = map (\<lambda>i. if i \<le> 0 then 1 else 0) [- radius..radius]"

text \<open>
  Lines 69 to 80: the three filters of a direction, two half-kernel convolutions and the
  box blur.
\<close>

definition side_filters :: "env \<Rightarrow> int \<Rightarrow> nat list \<Rightarrow> ConvMode
    \<Rightarrow> (VideoNode \<Rightarrow> error + VideoNode) list" where
  "side_filters e radius planes mode =
     [\<lambda>c. Inr (filtered c (StdConvolution (graph c) (half_kernel radius) planes mode)),
      \<lambda>c. Inr (filtered c (StdConvolution (graph c) (rev (half_kernel radius)) planes mode)),
      blur_pt e planes]"

text \<open>
  Lines 82 to 87. The vertical results are produced one at a time, each followed by the
  horizontal filters applied to it, the pair of the two box blurs left out; the first
  exception ends the evaluation.
\<close>

definition intermediates :: "env \<Rightarrow> VideoNode \<Rightarrow> int \<Rightarrow> nat list \<Rightarrow> error + VideoNode list" where
  "intermediates e clip radius planes =
     (let vrt_filters = side_filters e radius planes VERTICAL;
          hrz_filters = side_filters e radius planes HORIZONTAL
      in collect (concat (map (\<lambda>(i, vrt_flt).
           case vrt_flt clip of
             Inl err \<Rightarrow> [Inl err]
           | Inr vrt_intermediate \<Rightarrow>
               map (\<lambda>(j, hrz_flt). hrz_flt vrt_intermediate)
                 (filter (\<lambda>(j, hrz_flt). \<not> (i = 2 \<and> j = 2)) (enumerate 0 hrz_filters)))
         (enumerate (0::nat) vrt_filters))))"

text \<open>
  \<^verbatim>\<open>ExprVars\<close> of \<^verbatim>\<open>vsexprtools\<close> names the input clips \<^verbatim>\<open>x y z a b c ...\<close>; the upper-case
  letter of a name is used as a register.
\<close>

definition expr_var_upper :: "nat \<Rightarrow> string" where
  "expr_var_upper i = [''XYZABCDEFGHIJKLMNOPQRSTUVW'' ! i]"

text \<open>Line 92: \<^verbatim>\<open>'{cum} x - abs {new} x - abs < {cum} {new} ?'\<close>.\<close>

definition template :: "tok \<Rightarrow> tok \<Rightarrow> tok list" where
  "template cum new = [cum, Var 0, Sub, Abs, new, Var 0, Sub, Abs, Lt, cum, new, Ternary]"

text \<open>
  Lines 97 to 106: the loop over \<^verbatim>\<open>zip(count(), ExprVars[2:26], ExprVars[4:26])\<close>, which has
  22 rounds at most.
\<close>

fun cum_loop :: "nat \<Rightarrow> nat list \<Rightarrow> tok list \<Rightarrow> tok \<Rightarrow> tok list" where
  "cum_loop n_inter [] cum_expr cumc = cum_expr"
| "cum_loop n_inter (i # rest) cum_expr cumc =
     (if int i = int n_inter - 1 then cum_expr
      else
        let cum_expr = cum_expr @ template cumc (Var (i + 2))
        in if int i \<noteq> int n_inter - 2
           then cum_loop n_inter rest
                  (cum_expr @ [Store (expr_var_upper (i + 4))]) (Load (expr_var_upper (i + 4)))
           else cum_loop n_inter rest cum_expr cumc)"

text \<open>Lines 89 to 126, once the intermediates are there.\<close>

definition side_box_merge :: "env \<Rightarrow> VideoNode \<Rightarrow> int \<Rightarrow> nat list \<Rightarrow> bool \<Rightarrow> VideoNode list
    \<Rightarrow> error + VideoNode" where
  "side_box_merge e clip radius planes inverse0 inters =
     (case (if inverse0 then Inr None
            else map_sum id Some (box_blur e clip (RInt radius) 1 HV (Some planes))) of
        Inl err \<Rightarrow> Inl err
      | Inr comp_blur \<Rightarrow>
         (case (if complexpr_available e
                then
                  let n_inter = length inters;
                      cum_expr = cum_loop n_inter [0..<22] [] (Var 1)
                  in Inr (filtered clip
                       (case comp_blur of
                          Some cb \<Rightarrow>
                            NormExpr (graph clip # map graph inters @ [graph cb])
                              [[Var 0] @ cum_expr @ [Sub, Var (n_inter + 1), Add]]
                              (Some planes) (Some ''vsrgtools.side_box_blur'')
                        | None \<Rightarrow>
                            NormExpr (graph clip # map graph inters) [cum_expr]
                              (Some planes) (Some ''vsrgtools.side_box_blur'')))
                else
                  (case inters of
                     [] \<Rightarrow> Inl (IndexError ''list index out of range'')
                   | first # rest \<Rightarrow>
                       let cum = foldl (\<lambda>cum new. filtered cum
                                   (LimitFilter (graph clip) (graph cum) (graph new)
                                      SIMPLE2_MIN planes)) first rest
                       in Inr (case comp_blur of
                                 Some cb \<Rightarrow>
                                   filtered clip
                                     (StdMergeDiff (StdMakeDiff (graph clip) (graph cum) None)
                                        (graph cb))
                               | None \<Rightarrow> cum))) of
            Inl err \<Rightarrow> Inl err
          | Inr cum \<Rightarrow>
              (case comp_blur of
                 Some cb \<Rightarrow> box_blur e cum (RInt 1) (min (radius div 2) 1) HV None
               | None \<Rightarrow> Inr cum)))"

definition side_box_blur_scalar :: "env \<Rightarrow> VideoNode \<Rightarrow> int \<Rightarrow> nat list \<Rightarrow> bool
    \<Rightarrow> error + VideoNode" where
  "side_box_blur_scalar e clip radius planes inverse0 =
     (case intermediates e clip radius planes of
        Inl err \<Rightarrow> Inl err
      | Inr inters \<Rightarrow> side_box_merge e clip radius planes inverse0 inters)"

definition side_box_blur :: "env \<Rightarrow> VideoNode \<Rightarrow> int radius_t \<Rightarrow> nat list option \<Rightarrow> bool
    \<Rightarrow> error + VideoNode" where
  "side_box_blur e clip radius planes inverse0 =
     (let planes = normalize_planes e (format clip) planes in
      case radius of
        RList rs \<Rightarrow>
          normalize_radius clip
            (\<lambda>c r ps. side_box_blur_scalar e c r
                         (normalize_planes e (format c) (Some ps)) inverse0)
            rs planes
      | RInt r \<Rightarrow> side_box_blur_scalar e clip r planes inverse0)"

subsection \<open>\<^verbatim>\<open>gauss_blur\<close>, lines 129 to 184\<close>

text \<open>
  \<^verbatim>\<open>ConvMode\<close> of \<^verbatim>\<open>vstools\<close> is an enumeration of strings, so \<^verbatim>\<open>a in b\<close> between modes, and
  between a letter and a mode, is the substring test of strings.
\<close>

fun mode_value :: "ConvMode \<Rightarrow> string" where
  "mode_value SQUARE = ''s''"
| "mode_value VERTICAL = ''v''"
| "mode_value HORIZONTAL = ''h''"
| "mode_value HV = ''hv''"
| "mode_value TEMPORAL = ''t''"

fun starts_with :: "string \<Rightarrow> string \<Rightarrow> bool" where
  "starts_with s [] = True"
| "starts_with [] (p # ps) = False"
| "starts_with (c # cs) (p # ps) = (c = p \<and> starts_with cs ps)"

fun str_in :: "string \<Rightarrow> string \<Rightarrow> bool" where
  "str_in p [] = (p = [])"
| "str_in p (c # cs) = (starts_with (c # cs) p \<or> str_in p cs)"

text \<open>Lines 159 to 163.\<close>

definition gauss_message :: string where
  "gauss_message =
     ''With a high sigma you need a high number of taps, and that'' @ [CHR 0x27] @
     ''t only supported with vskernels scaling or akarin expr!'' @ [CHR 0x0A] @
     ''Install one of the two plugins (resize2, akarin) or set a lower number of taps (<= 12)!''"

text \<open>Lines 140 to 152: the sigma clamped to the frame, the taps and the kernel.\<close>

definition gauss_kernel_for :: "env \<Rightarrow> VideoNode \<Rightarrow> real \<Rightarrow> int option \<Rightarrow> ConvMode
    \<Rightarrow> gauss_kernel" where
  "gauss_kernel_for e clip sigma0 taps0 mode =
     (let sigma1 = (if str_in (mode_value mode) (mode_value VERTICAL)
                    then min sigma0 (real (height clip)) else sigma0);
          sigma = (if str_in (mode_value mode) (mode_value HORIZONTAL)
                   then min sigma1 (real (width clip)) else sigma1);
          taps = get_taps e sigma taps0;
          no_resize2 = (\<not> has_resize2 e)
      in \<lparr>k_taps = taps, k_sigma = sigma, k_mode = mode,
          k_scale_value = (if no_resize2 \<and> 12 < taps then 1.0 else 1023)\<rparr>)"

text \<open>Lines 140 to 184: the call with a scalar sigma, after the planes are normalized.\<close>

definition gauss_blur_scalar :: "env \<Rightarrow> VideoNode \<Rightarrow> real \<Rightarrow> int option \<Rightarrow> ConvMode \<Rightarrow> nat list
    \<Rightarrow> error + VideoNode" where
  "gauss_blur_scalar e clip sigma0 taps0 mode planes =
     (let kernel = gauss_kernel_for e clip sigma0 taps0 mode;
          sigma = k_sigma kernel;
          taps = k_taps kernel;
          no_resize2 = (\<not> has_resize2 e)
      in if kernel_len e kernel \<le> 25
         then Inr (filtered clip (BlurMatrixGAUSS kernel (graph clip) planes))
         else if no_resize2
         then
           (if \<not> complexpr_available e
            then raise_named ''CustomRuntimeError'' (CustomRuntimeError gauss_message)
            else
              let proc1 = (if str_in (mode_value HORIZONTAL) (mode_value mode)
                           then filtered clip (ExprOpConvolution kernel HORIZONTAL (graph clip))
                           else clip);
                  proc2 = (if str_in (mode_value VERTICAL) (mode_value mode)
                           then filtered proc1 (ExprOpConvolution kernel VERTICAL (graph proc1))
                           else proc1)
              in Inr proc2)
         else
           let resize2_blur = (\<lambda>plane. filtered plane
                 (GaussianScale sigma taps (str_in ''h'' (mode_value mode))
                    (str_in ''v'' (mode_value mode)) (graph plane)))
           in if set [0..<num_planes (format clip)] - set planes = {}
              then Inr (resize2_blur clip)
              else Inr (join clip
                     (map (\<lambda>(i, p). if i \<in> set planes then resize2_blur p else p)
                        (enumerate 0 (split clip)))))"

text \<open>
  Lines 133 to 138. With a list the normalizer calls \<^verbatim>\<open>gauss_blur\<close> again with one sigma,
  the planes it chose and \<^verbatim>\<open>mode\<close>; \<^verbatim>\<open>taps\<close> is not handed over.
\<close>

definition gauss_blur :: "env \<Rightarrow> VideoNode \<Rightarrow> real radius_t \<Rightarrow> int option \<Rightarrow> ConvMode
    \<Rightarrow> nat list option \<Rightarrow> error + VideoNode" where
  "gauss_blur e clip sigma taps mode planes =
     (let planes = normalize_planes e (format clip) planes in
      case sigma of
        RList sigmas \<Rightarrow>
          normalize_radius clip
            (\<lambda>c s ps. gauss_blur_scalar e c s None mode (normalize_planes e (format c) (Some ps)))
            sigmas planes
      | RInt s \<Rightarrow> gauss_blur_scalar e clip s taps mode planes)"

subsection \<open>\<^verbatim>\<open>bilateral\<close>, lines 258 to 285\<close>

text \<open>
  \<^verbatim>\<open>get_depth\<close> and \<^verbatim>\<open>depth\<close> of \<^verbatim>\<open>vstools\<close>: the bit depth of a clip, and its conversion to
  a bit depth (32 bits are float samples, fewer are integer samples), which returns the
  clip itself when it already has that format.
\<close>

definition get_depth :: "VideoNode \<Rightarrow> nat" where
  "get_depth clip = bits_per_sample (format clip)"

definition depth_format :: "VideoFormat \<Rightarrow> nat \<Rightarrow> VideoFormat" where
  "depth_format f bits =
     f\<lparr>sample_type := (if bits = 32 then FLOAT else INTEGER), bits_per_sample := bits\<rparr>"

definition depth :: "VideoNode \<Rightarrow> nat \<Rightarrow> VideoNode" where
  "depth clip bits =
     (if format clip = depth_format (format clip) bits then clip
      else clip\<lparr>format := depth_format (format clip) bits, graph := Depth (graph clip) bits\<rparr>)"

text \<open>Lines 280 and 281: a reference of another format is converted to the clip's depth.\<close>

definition match_ref :: "VideoNode \<Rightarrow> VideoNode option \<Rightarrow> VideoNode option" where
  "match_ref clip ref =
     (case ref of
        None \<Rightarrow> None
      | Some r \<Rightarrow> if format clip \<noteq> format r then Some (depth r (get_depth clip)) else Some r)"

definition bilateral :: "env \<Rightarrow> VideoNode \<Rightarrow> real list \<Rightarrow> real list \<Rightarrow> VideoNode option
    \<Rightarrow> int radius_t option \<Rightarrow> int \<Rightarrow> int option \<Rightarrow> bool \<Rightarrow> int option \<Rightarrow> int option
    \<Rightarrow> nat list option \<Rightarrow> bool option \<Rightarrow> error + VideoNode" where
  "bilateral e clip sigmaS0 sigmaR0 ref radius device_id num_streams use_shared_memory
      block_x block_y planes gpu =
     (let sigmaS = norm_seq e (format clip) planes sigmaS0;
          sigmaR = norm_seq e (format clip) planes sigmaR0
      in if gpu \<noteq> Some False
         then
           (if has_bilateralgpu_rtc e
            then Inr (filtered clip
                   (BilateralGpuRtc (graph clip) sigmaS sigmaR radius device_id
                      num_streams use_shared_memory block_x block_y (map_option graph ref)))
            else Inr (filtered clip
                   (BilateralGpu (graph clip) sigmaS sigmaR radius device_id
                      num_streams use_shared_memory (map_option graph ref))))
         else
           let bits = get_depth clip;
               clip1 = (if 16 < bits then depth clip 16 else clip);
               ref1 = match_ref clip1 ref;
               clip2 = filtered clip1
                         (VszipBilateral (graph clip1) (map_option graph ref1) sigmaS sigmaR)
           in Inr (depth clip2 bits))"

subsection \<open>\<^verbatim>\<open>flux_smooth\<close>, lines 288 to 307\<close>

text \<open>
  Line 298 is \<^verbatim>\<open>threshold << (bits_per_sample - 8)\<close>, since \<^verbatim>\<open>-\<close> binds tighter than \<^verbatim>\<open><<\<close>;
  a negative shift count is a \<^verbatim>\<open>ValueError\<close> of the language.
\<close>

definition flux_smooth :: "env \<Rightarrow> VideoNode \<Rightarrow> int \<Rightarrow> int \<Rightarrow> int \<Rightarrow> nat list option
    \<Rightarrow> error + VideoNode" where
  "flux_smooth e clip radius threshold0 scenechange planes0 =
     (if radius < 1 \<or> 7 < radius
      then raise_named ''CustomIndexError''
             (CustomIndexError ''Radius must be between 1 and 7 (inclusive)!''
                ''flux_smooth'' radius)
      else
        let planes = normalize_planes e (format clip) planes0;
            shift = int (bits_per_sample (format clip)) - 8
        in if shift < 0 then Inl (ValueError ''negative shift count'')
           else
             let threshold = push_bit (nat shift) threshold0;
                 cthreshold = (if 1 \<in> set planes \<or> 2 \<in> set planes then threshold else 0);
                 median = filtered clip (TemporalMedian (graph clip) radius planes);
                 average = filtered clip
                   (TemporalSoften2 (graph clip) radius threshold cthreshold scenechange)
             in Inr (filtered average
                  (LimitFilter (graph average) (graph clip) (graph median) DIFF_MIN planes)))"

section \<open>A host to run the operators on\<close>

text \<open>
  The concrete inputs of the examples below: a host with no optional plugin and one with
  all of them, whose imported functions answer as the libraries document
  (\<^verbatim>\<open>normalize_planes\<close> gives the sorted selected planes the format has, all of them for
  \<^verbatim>\<open>None\<close>; the matrix of a radius is the square neighbourhood without its centre; the taps
  of a sigma are \<^verbatim>\<open>ceil(abs(sigma) * 8 + 1) // 2\<close> unless given; a kernel of \<open>t\<close> taps has
  \<open>2 t + 1\<close> weights; \<^verbatim>\<open>norm_seq\<close> repeats the last value up to the number of planes), an
  8-bit and a 32-bit clip of three planes.
\<close>

definition normalize_planes_ref :: "VideoFormat \<Rightarrow> nat list option \<Rightarrow> nat list" where
  "normalize_planes_ref f planes =
     (case planes of
        None \<Rightarrow> [0..<num_planes f]
      | Some ps \<Rightarrow> sort (remdups (filter (\<lambda>p. p < num_planes f) ps)))"

definition matrix_ref :: "int \<Rightarrow> ConvMode \<Rightarrow> (int \<times> int) list" where
  "matrix_ref r mode =
     filter (\<lambda>(dx, dy). \<not> (dx = 0 \<and> dy = 0))
       (concat (map (\<lambda>dy. map (\<lambda>dx. (dx, dy)) [- r..r]) [- r..r]))"

definition get_taps_ref :: "real \<Rightarrow> int option \<Rightarrow> int" where
  "get_taps_ref sigma taps =
     (case taps of None \<Rightarrow> \<lceil>\<bar>sigma\<bar> * 8 + 1\<rceil> div 2 | Some t \<Rightarrow> t)"

definition kernel_len_ref :: "gauss_kernel \<Rightarrow> nat" where
  "kernel_len_ref k = nat (2 * k_taps k + 1)"

definition norm_seq_ref :: "VideoFormat \<Rightarrow> nat list option \<Rightarrow> real list \<Rightarrow> real list" where
  "norm_seq_ref f planes xs =
     (if xs = [] then [] else take (num_planes f) (xs @ replicate (num_planes f) (last xs)))"

definition bare_host :: env where
  "bare_host =
     \<lparr>has_vszip = False, has_resize2 = False, has_bilateralgpu_rtc = False,
      complexpr_available = False, normalize_planes = normalize_planes_ref,
      matrix = matrix_ref, get_taps = get_taps_ref, kernel_len = kernel_len_ref,
      norm_seq = norm_seq_ref\<rparr>"

definition full_host :: env where
  "full_host =
     \<lparr>has_vszip = True, has_resize2 = True, has_bilateralgpu_rtc = True,
      complexpr_available = True, normalize_planes = normalize_planes_ref,
      matrix = matrix_ref, get_taps = get_taps_ref, kernel_len = kernel_len_ref,
      norm_seq = norm_seq_ref\<rparr>"

definition clip8 :: VideoNode where
  "clip8 =
     \<lparr>format = \<lparr>sample_type = INTEGER, bits_per_sample = 8, num_planes = 3\<rparr>,
      width = 1920, height = 1080, graph = Input 0\<rparr>"

definition clip32 :: VideoNode where
  "clip32 =
     \<lparr>format = \<lparr>sample_type = FLOAT, bits_per_sample = 32, num_planes = 3\<rparr>,
      width = 1920, height = 1080, graph = Input 0\<rparr>"

section \<open>Facts about the conversions of depth\<close>

lemma depth_converts:
  assumes "bits_per_sample (format c) \<noteq> b"
  shows "depth c b = c\<lparr>format := depth_format (format c) b, graph := Depth (graph c) b\<rparr>"
proof -
  have "bits_per_sample (depth_format (format c) b) = b"
    by (simp add: depth_format_def)
  with assms have "format c \<noteq> depth_format (format c) b"
    by metis
  then show ?thesis
    by (simp add: depth_def)
qed

lemma get_depth_depth: "get_depth (depth c b) = b"
proof (cases "format c = depth_format (format c) b")
  case True
  then have "bits_per_sample (format c) = bits_per_sample (depth_format (format c) b)"
    by simp
  then show ?thesis
    using True by (simp add: depth_def get_depth_def depth_format_def)
next
  case False
  then show ?thesis
    by (simp add: depth_def get_depth_def depth_format_def)
qed

section \<open>The agreement merge of \<^verbatim>\<open>min_blur\<close> and \<^verbatim>\<open>sbr\<close>\<close>




section \<open>\<^verbatim>\<open>gauss_blur\<close> on a host with neither engine\<close>

text \<open>
  Claim C2 expects the error that line 159 constructs, \<^verbatim>\<open>CustomRuntimeError\<close> with its
  message. The module never imports that name (lines 9 to 12), so on a host without
  \<^verbatim>\<open>resize2\<close> and without the expression engine a kernel of more than 25 weights ends in
  a \<^verbatim>\<open>NameError\<close> for \<^verbatim>\<open>CustomRuntimeError\<close>: an exception is raised and no kernel is
  applied, but it is not the one written, and it does not say what is missing.
\<close>

theorem gauss_blur_large_kernel_NameError:
  "\<not> has_resize2 e \<Longrightarrow> \<not> complexpr_available e \<Longrightarrow>
   25 < kernel_len e (gauss_kernel_for e clip sigma taps mode) \<Longrightarrow>
   gauss_blur e clip (RInt sigma) taps mode planes = Inl (NameError ''CustomRuntimeError'')"
  by (simp add: gauss_blur_def gauss_blur_scalar_def Let_def raise_named_def module_names_def)

text \<open>Sigma 10 on the bare host: 40 taps, a kernel of 81 weights.\<close>

theorem gauss_blur_large_kernel_NameError_witness:
  "gauss_blur bare_host clip8 (RInt 10) None HV None = Inl (NameError ''CustomRuntimeError'')"
  by (rule gauss_blur_large_kernel_NameError)
     (simp_all add: bare_host_def gauss_kernel_for_def kernel_len_ref_def get_taps_ref_def
        clip8_def)

section \<open>\<^verbatim>\<open>bilateral\<close> and the bit depth\<close>

text \<open>
  Claim C3, as the code has it. Unless \<^verbatim>\<open>gpu\<close> is \<^verbatim>\<open>False\<close> the clip goes to the GPU
  primitive as it is (the run-time compiled one when the host has it, the other one
  otherwise), whatever its depth, and the result is returned as it comes. Only on the CPU
  path (\<^verbatim>\<open>gpu\<close> is \<^verbatim>\<open>False\<close>) a clip of more than 16 bits is converted to 16 bits before
  \<^verbatim>\<open>vszip.Bilateral\<close> and the result is converted back to the depth of the input; a clip of
  16 bits or fewer reaches the primitive unconverted.
\<close>

theorem bilateral_depth_normalization:
  "(gpu \<noteq> Some False \<longrightarrow>
     bilateral e clip sigmaS sigmaR ref radius device_id num_streams usm block_x block_y planes gpu =
       Inr (filtered clip
         (if has_bilateralgpu_rtc e
          then BilateralGpuRtc (graph clip) (norm_seq e (format clip) planes sigmaS)
                 (norm_seq e (format clip) planes sigmaR) radius device_id num_streams usm
                 block_x block_y (map_option graph ref)
          else BilateralGpu (graph clip) (norm_seq e (format clip) planes sigmaS)
                 (norm_seq e (format clip) planes sigmaR) radius device_id num_streams usm
                 (map_option graph ref))))
  \<and> (gpu = Some False \<and> 16 < get_depth clip \<longrightarrow>
       bilateral e clip sigmaS sigmaR ref radius device_id num_streams usm block_x block_y
         planes gpu =
       Inr (depth (filtered (depth clip 16)
              (VszipBilateral (Depth (graph clip) 16)
                 (map_option graph (match_ref (depth clip 16) ref))
                 (norm_seq e (format clip) planes sigmaS)
                 (norm_seq e (format clip) planes sigmaR))) (get_depth clip))
       \<and> get_depth (depth clip 16) = 16
       \<and> graph (depth clip 16) = Depth (graph clip) 16
       \<and> get_depth (depth (filtered (depth clip 16)
              (VszipBilateral (Depth (graph clip) 16)
                 (map_option graph (match_ref (depth clip 16) ref))
                 (norm_seq e (format clip) planes sigmaS)
                 (norm_seq e (format clip) planes sigmaR))) (get_depth clip)) = get_depth clip)
  \<and> (gpu = Some False \<and> get_depth clip \<le> 16 \<longrightarrow>
       bilateral e clip sigmaS sigmaR ref radius device_id num_streams usm block_x block_y
         planes gpu =
       Inr (depth (filtered clip
              (VszipBilateral (graph clip) (map_option graph (match_ref clip ref))
                 (norm_seq e (format clip) planes sigmaS)
                 (norm_seq e (format clip) planes sigmaR))) (get_depth clip)))"
proof -
  have g: "16 < get_depth clip \<Longrightarrow> graph (depth clip 16) = Depth (graph clip) 16"
    by (simp add: depth_converts get_depth_def)
  show ?thesis
    by (simp add: bilateral_def Let_def g get_depth_depth)
qed

text \<open>The CPU path on the 32-bit clip: down to 16 bits, the primitive, back to 32 bits.\<close>

theorem bilateral_depth_normalization_witness:
  "16 < get_depth clip32 \<and>
   bilateral bare_host clip32 [3] [1] None None 0 None True None None None (Some False) =
     Inr (depth (filtered (depth clip32 16)
       (VszipBilateral (Depth (Input 0) 16) None
         (norm_seq bare_host (format clip32) None [3])
         (norm_seq bare_host (format clip32) None [1]))) 32)
   \<and> get_depth (depth clip32 16) = 16"
proof -
  have h: "16 < get_depth clip32" and d: "get_depth clip32 = 32" and g: "graph clip32 = Input 0"
    by (simp_all add: clip32_def get_depth_def)
  from bilateral_depth_normalization
         [of "Some False" bare_host clip32 "[3]" "[1]" None None 0 None True None None None] h
  show ?thesis using d g by (simp add: match_ref_def)
qed

text \<open>
  Claim C3 as the spec words it has the conversion on each of the three paths. The 32-bit
  clip, with \<^verbatim>\<open>gpu\<close> left at \<^verbatim>\<open>None\<close> on the host with the run-time compiled primitive and
  with \<^verbatim>\<open>gpu=True\<close> on the host without it, reaches the GPU primitive as the input itself,
  and nothing converts the result.
\<close>

theorem bilateral_gpu_paths_counterexample:
  "16 < get_depth clip32
   \<and> bilateral full_host clip32 [3] [1] None None 0 None True None None None None =
       Inr (filtered clip32
         (BilateralGpuRtc (Input 0) (norm_seq full_host (format clip32) None [3])
            (norm_seq full_host (format clip32) None [1]) None 0 None True None None None))
   \<and> bilateral bare_host clip32 [3] [1] None None 0 None True None None None (Some True) =
       Inr (filtered clip32
         (BilateralGpu (Input 0) (norm_seq bare_host (format clip32) None [3])
            (norm_seq bare_host (format clip32) None [1]) None 0 None True None))"
  by (simp add: bilateral_def get_depth_def clip32_def full_host_def bare_host_def filtered_def)

section \<open>The backends of \<^verbatim>\<open>box_blur\<close>\<close>

text \<open>
  Claim C5. For a scalar radius greater than zero: the \<^verbatim>\<open>vszip\<close> box blur when the host
  has it; otherwise the mean kernel of \<^verbatim>\<open>BlurMatrix\<close> when the radius is at most 12 or the
  format is 16-bit float; otherwise \<^verbatim>\<open>std.BoxBlur\<close>. The two native primitives get the
  radius for both directions, with no pass in the direction the mode leaves out.
\<close>

theorem box_blur_backend_chain:
  "0 < r \<Longrightarrow> box_blur e clip (RInt r) passes mode planes =
   Inr (filtered clip
     (let ps = normalize_planes e (format clip) planes;
          hpasses = (if mode = VERTICAL then 0 else passes);
          vpasses = (if mode = HORIZONTAL then 0 else passes)
      in if has_vszip e then VszipBoxBlur (graph clip) ps r hpasses r vpasses
         else if r \<le> 12 \<or> (sample_type (format clip) = FLOAT \<and> bits_per_sample (format clip) = 16)
         then BlurMatrixMEAN r mode (graph clip) ps passes
         else StdBoxBlur (graph clip) ps r hpasses r vpasses))"
  by (auto simp add: box_blur_def box_blur_scalar_def Let_def)

text \<open>The three backends: radius 3 with \<^verbatim>\<open>vszip\<close>, radius 12 and radius 13 without it.\<close>

theorem box_blur_backend_chain_witness:
  "box_blur full_host clip8 (RInt 3) 1 HV None =
     Inr (filtered clip8 (VszipBoxBlur (Input 0) [0..<3] 3 1 3 1))
   \<and> box_blur bare_host clip8 (RInt 12) 1 HV None =
     Inr (filtered clip8 (BlurMatrixMEAN 12 HV (Input 0) [0..<3] 1))
   \<and> box_blur bare_host clip8 (RInt 13) 1 VERTICAL None =
     Inr (filtered clip8 (StdBoxBlur (Input 0) [0..<3] 13 0 13 1))"
  using box_blur_backend_chain [of 3 full_host clip8 1 HV None]
    box_blur_backend_chain [of 12 bare_host clip8 1 HV None]
    box_blur_backend_chain [of 13 bare_host clip8 1 VERTICAL None]
  by (simp add: full_host_def bare_host_def clip8_def normalize_planes_ref_def Let_def)

section \<open>The dispatch of \<^verbatim>\<open>median_blur\<close>\<close>

text \<open>
  Claim C7. The scalar radius 1 in mode \<^verbatim>\<open>HV\<close> or \<^verbatim>\<open>SQUARE\<close> is the call of the host's
  3x3 median \<^verbatim>\<open>std.Median\<close> on the clip, and nothing else; every other radius or mode is one
  call of the expression engine with one sorting-network program per radius. What
  \<^verbatim>\<open>std.Median\<close> computes at a pixel is the host's: the node is the direct 3x3 median.
\<close>

theorem median_blur_dispatch:
  "(radius = RInt 1 \<and> (mode = HV \<or> mode = SQUARE) \<longrightarrow>
     median_blur e clip radius mode planes = filtered clip (StdMedian (graph clip) planes))
   \<and> (\<not> (radius = RInt 1 \<and> (mode = HV \<or> mode = SQUARE)) \<longrightarrow>
     median_blur e clip radius mode planes =
       filtered clip (NormExpr [graph clip]
         (map (\<lambda>r. median_expr (matrix e r mode)) (to_arr radius)) planes (Some ''median_blur'')))"
  by (auto simp add: median_blur_def)

theorem median_blur_dispatch_witness:
  "median_blur bare_host clip8 (RInt 1) HV None = filtered clip8 (StdMedian (Input 0) None)
   \<and> median_blur bare_host clip8 (RInt 1) SQUARE None = filtered clip8 (StdMedian (Input 0) None)
   \<and> median_blur bare_host clip8 (RInt 1) VERTICAL None =
       filtered clip8 (NormExpr [Input 0] [median_expr (matrix bare_host 1 VERTICAL)] None
         (Some ''median_blur''))
   \<and> median_blur bare_host clip8 (RInt 2) HV None =
       filtered clip8 (NormExpr [Input 0] [median_expr (matrix bare_host 2 HV)] None
         (Some ''median_blur''))"
  using median_blur_dispatch [of "RInt 1" HV bare_host clip8 None]
    median_blur_dispatch [of "RInt 1" SQUARE bare_host clip8 None]
    median_blur_dispatch [of "RInt 1" VERTICAL bare_host clip8 None]
    median_blur_dispatch [of "RInt 2" HV bare_host clip8 None]
  by (simp add: clip8_def)

section \<open>\<^verbatim>\<open>flux_smooth\<close>\<close>

text \<open>
  Claim C8. A radius below 1 or above 7 raises \<^verbatim>\<open>CustomIndexError\<close>, which carries the
  function \<^verbatim>\<open>flux_smooth\<close> and the radius given; the result is the exception, so no filter
  has been called. A radius from 1 to 7 never raises it.
\<close>

theorem flux_smooth_radius_check:
  "(radius < 1 \<or> 7 < radius \<longrightarrow>
     flux_smooth e clip radius threshold scenechange planes =
       Inl (CustomIndexError ''Radius must be between 1 and 7 (inclusive)!'' ''flux_smooth''
              radius))
   \<and> (1 \<le> radius \<and> radius \<le> 7 \<longrightarrow>
       (\<forall>msg func reason. flux_smooth e clip radius threshold scenechange planes \<noteq>
          Inl (CustomIndexError msg func reason)))"
  by (auto simp add: flux_smooth_def raise_named_def module_names_def Let_def)

theorem flux_smooth_radius_check_witness:
  "flux_smooth bare_host clip8 0 7 24 None =
     Inl (CustomIndexError ''Radius must be between 1 and 7 (inclusive)!'' ''flux_smooth'' 0)
   \<and> flux_smooth bare_host clip8 8 7 24 None =
     Inl (CustomIndexError ''Radius must be between 1 and 7 (inclusive)!'' ''flux_smooth'' 8)
   \<and> (\<forall>msg func reason. flux_smooth bare_host clip8 7 7 24 None \<noteq>
        Inl (CustomIndexError msg func reason))"
  using flux_smooth_radius_check [of 0 bare_host clip8 7 24 None]
    flux_smooth_radius_check [of 8 bare_host clip8 7 24 None]
    flux_smooth_radius_check [of 7 bare_host clip8 7 24 None]
  by simp

text \<open>
  Claim C10. For a valid radius and a format of at least 8 bits, the temporal softener gets
  the threshold shifted left by \<open>bits_per_sample - 8\<close>, and as chroma threshold 0 when
  neither plane 1 nor plane 2 is among the normalized planes, the shifted threshold
  otherwise.
\<close>

theorem flux_smooth_threshold_scaling:
  "1 \<le> radius \<Longrightarrow> radius \<le> 7 \<Longrightarrow> 8 \<le> bits_per_sample (format clip) \<Longrightarrow>
   flux_smooth e clip radius threshold scenechange planes =
     Inr (filtered clip
       (let ps = normalize_planes e (format clip) planes;
            th = push_bit (bits_per_sample (format clip) - 8) threshold;
            cth = (if 1 \<notin> set ps \<and> 2 \<notin> set ps then 0 else th)
        in LimitFilter (TemporalSoften2 (graph clip) radius th cth scenechange) (graph clip)
             (TemporalMedian (graph clip) radius ps) DIFF_MIN ps))"
  by (auto simp add: flux_smooth_def Let_def filtered_def nat_diff_distrib)

text \<open>
  Threshold 7 on the 32-bit clip is \<open>7 * 2 ^ 24\<close>; with the luma plane alone selected the
  chroma threshold is 0, with all planes it is the shifted threshold.
\<close>

theorem flux_smooth_threshold_scaling_witness:
  "flux_smooth bare_host clip32 2 7 24 (Some [0]) =
     Inr (filtered clip32
       (LimitFilter (TemporalSoften2 (Input 0) 2 117440512 0 24) (Input 0)
          (TemporalMedian (Input 0) 2 [0]) DIFF_MIN [0]))
   \<and> flux_smooth bare_host clip32 2 7 24 None =
     Inr (filtered clip32
       (LimitFilter (TemporalSoften2 (Input 0) 2 117440512 117440512 24) (Input 0)
          (TemporalMedian (Input 0) 2 [0..<3]) DIFF_MIN [0..<3]))"
  using flux_smooth_threshold_scaling [of 2 clip32 bare_host 7 24 "Some [0]"]
    flux_smooth_threshold_scaling [of 2 clip32 bare_host 7 24 None]
  by (simp add: bare_host_def clip32_def normalize_planes_ref_def push_bit_eq_mult Let_def)

section \<open>\<^verbatim>\<open>box_blur\<close> with radius 0\<close>

text \<open>
  Claim C9. With the scalar radius 0 \<^verbatim>\<open>box_blur\<close> returns the clip it was given, on every
  host and for every pass count, mode and plane selection: no filter is added to its graph.
\<close>

theorem box_blur_radius_zero_identity:
  "box_blur e clip (RInt 0) passes mode planes = Inr clip"
  by (simp add: box_blur_def box_blur_scalar_def)

theorem box_blur_radius_zero_identity_witness:
  "box_blur full_host clip8 (RInt 0) 1 HV None = Inr clip8
   \<and> box_blur bare_host clip32 (RInt 0) 3 VERTICAL (Some [1]) = Inr clip32"
  using box_blur_radius_zero_identity [of full_host clip8 1 HV None]
    box_blur_radius_zero_identity [of bare_host clip32 3 VERTICAL "Some [1]"]
  by simp

section \<open>The sorting-network program of \<^verbatim>\<open>median_blur\<close>\<close>










end
